theory Spec2Isabelle
  imports Complex_Main "HOL-Library.Sublist"
begin

section \<open>Roof material classification notebook\<close>

text \<open>
  The development embeds the code cells of
  \<^verbatim>\<open>examples/04-Roof-Classification-Model.ipynb\<close>.  Python exceptions are values of
  \<open>py_error\<close>; a statement that may raise returns \<open>py_error + 'a\<close> with \<open>Inl\<close> for the
  exception.
\<close>

datatype py_error =
    KeyError string
  | ValueError
  | TypeError
  | AttributeError
  | OSError string

subsection \<open>Floats and lists of floats\<close>

text \<open>
  A Python float is a number or NaN (rounding and the infinities are not modelled).
  Every comparison with NaN is false: \<open><\<close> and \<open>==\<close> hold between numbers only.
\<close>

datatype pyfloat = NaN | Fin real

fun float_lt :: "pyfloat \<Rightarrow> pyfloat \<Rightarrow> bool" where
  "float_lt (Fin x) (Fin y) = (x < y)"
| "float_lt _ _ = False"

fun float_eq :: "pyfloat \<Rightarrow> pyfloat \<Rightarrow> bool" where
  "float_eq (Fin x) (Fin y) = (x = y)"
| "float_eq _ _ = False"

text \<open>
  A list holds references to float objects; the store gives the value of each object.
  Two entries may be the same object, and an object is found by identity even when its
  value is NaN.
\<close>

type_synonym objref = nat

type_synonym store = "objref \<Rightarrow> pyfloat"

subsection \<open>The loss-plot cell: \<open>best_epoch\<close>\<close>

text \<open>
  \<^verbatim>\<open>best_epoch = metrics['val_losses'].index(min(metrics['val_losses'])) # Get epoch with best val loss\<close>

  The builtin \<open>min\<close> raises \<open>ValueError\<close> on an empty sequence; otherwise it starts
  from the first element and replaces the candidate by an element \<open>y\<close> only when
  \<open>y < candidate\<close> is true; it returns the object it has kept.  \<open>list.index\<close> scans
  from the left, returns the position of the first element that is its argument or is
  equal to it, and raises \<open>ValueError\<close> when there is none.
\<close>

fun py_min :: "store \<Rightarrow> objref list \<Rightarrow> py_error + objref" where
  "py_min h [] = Inl ValueError"
| "py_min h (x # xs) = Inr (foldl (\<lambda>m y. if float_lt (h y) (h m) then y else m) x xs)"

fun index_from :: "store \<Rightarrow> nat \<Rightarrow> objref list \<Rightarrow> objref \<Rightarrow> py_error + nat" where
  "index_from h i [] v = Inl ValueError"
| "index_from h i (x # xs) v =
     (if x = v \<or> float_eq (h x) (h v) then Inr i else index_from h (Suc i) xs v)"

definition py_index :: "store \<Rightarrow> objref list \<Rightarrow> objref \<Rightarrow> py_error + nat" where
  "py_index h xs v = index_from h 0 xs v"

definition best_epoch :: "store \<Rightarrow> objref list \<Rightarrow> py_error + nat" where
  "best_epoch h val_losses =
     (case py_min h val_losses of
        Inl e \<Rightarrow> Inl e
      | Inr m \<Rightarrow> py_index h val_losses m)"

text \<open>
  The property in the words of the specification: the list of values \<open>vs\<close> attains its
  minimum value at position \<open>i\<close>.  The minimum value of a list of floats is the least
  of its numbers.
\<close>

definition numbers :: "pyfloat list \<Rightarrow> real list" where
  "numbers vs = concat (map (\<lambda>v. case v of Fin x \<Rightarrow> [x] | NaN \<Rightarrow> []) vs)"




subsection \<open>Running a cell: events and exceptions\<close>

text \<open>
  What a cell does to the outside (dictionary reads, calls to matplotlib, printing) is
  recorded as a list of events, in order.  A computation is the events it has produced
  together with either the exception that stopped it or its value.
\<close>

datatype pyval =
    Num pyfloat
  | NumList "objref list"
  | Dict "(int \<times> string) list"
  | Matrix "int list list"

datatype event =
    GetItem string
  | PltCall string
  | Plot pyval string
  | Scatter nat pyval string
  | Print pyval
  | PrintText string
  | PrintAccuracy pyfloat

type_synonym 'a run = "event list \<times> (py_error + 'a)"

definition emit :: "event \<Rightarrow> unit run" where
  "emit e = ([e], Inr ())"

definition lift :: "py_error + 'a \<Rightarrow> 'a run" where
  "lift r = ([], r)"

definition bind :: "'a run \<Rightarrow> ('a \<Rightarrow> 'b run) \<Rightarrow> 'b run" where
  "bind m f =
     (case m of
        (tr, Inl e) \<Rightarrow> (tr, Inl e)
      | (tr, Inr x) \<Rightarrow> (case f x of (tr', r) \<Rightarrow> (tr @ tr', r)))"

definition seq :: "unit run \<Rightarrow> 'b run \<Rightarrow> 'b run" where
  "seq m n = bind m (\<lambda>_. n)"

text \<open>\<^verbatim>\<open>metrics[k]\<close>: a missing key raises \<open>KeyError\<close>.\<close>

definition getitem :: "(string \<rightharpoonup> pyval) \<Rightarrow> string \<Rightarrow> pyval run" where
  "getitem d k =
     (case d k of
        None \<Rightarrow> ([GetItem k], Inl (KeyError k))
      | Some v \<Rightarrow> ([GetItem k], Inr v))"

text \<open>
  \<^verbatim>\<open>recv.index(min(arg))\<close>.  The attribute \<open>index\<close> is looked up on the receiver
  before the argument is evaluated; of the values above only a list has it.  \<open>min\<close>
  of a number raises \<open>TypeError\<close>.

  In the cell receiver and argument are read from the same key of a dictionary that
  is not changed in between, so \<open>min\<close> is reached with a list only.  What Python does
  with the other values (for a dictionary \<open>min\<close> returns the smallest key, for a
  two-dimensional array it raises \<open>ValueError\<close>) is not modelled: both stand as
  \<open>TypeError\<close> here.
\<close>

definition getattr_index :: "pyval \<Rightarrow> py_error + objref list" where
  "getattr_index recv = (case recv of NumList xs \<Rightarrow> Inr xs | _ \<Rightarrow> Inl AttributeError)"

definition builtin_min :: "store \<Rightarrow> pyval \<Rightarrow> py_error + objref" where
  "builtin_min h arg = (case arg of NumList ys \<Rightarrow> py_min h ys | _ \<Rightarrow> Inl TypeError)"

text \<open>
  The cell that plots the losses (matplotlib calls are events; errors inside matplotlib
  are outside the model):
  \<^verbatim>\<open>
  plt.figure(figsize=(5, 3))
  plt.plot(metrics['train_losses'], label='train')
  plt.plot(metrics['val_losses'], label='val')
  best_epoch = metrics['val_losses'].index(min(metrics['val_losses']))
  plt.scatter(best_epoch, metrics['test_loss'], label='test', color='green', marker='x')
  plt.legend(frameon=False)
  plt.xlabel('Epoch')
  plt.ylabel('Loss')
  plt.title('Roof Material Classification Loss')
  plt.tight_layout()
  plt.show()
  \<close>
\<close>

definition plot_cell :: "store \<Rightarrow> (string \<rightharpoonup> pyval) \<Rightarrow> unit run" where
  "plot_cell h metrics =
     seq (emit (PltCall ''figure''))
    (bind (getitem metrics ''train_losses'') (\<lambda>train.
     seq (emit (Plot train ''train''))
    (bind (getitem metrics ''val_losses'') (\<lambda>val.
     seq (emit (Plot val ''val''))
    (bind (getitem metrics ''val_losses'') (\<lambda>recv.
     bind (lift (getattr_index recv)) (\<lambda>xs.
     bind (getitem metrics ''val_losses'') (\<lambda>arg.
     bind (lift (builtin_min h arg)) (\<lambda>m.
     bind (lift (py_index h xs m)) (\<lambda>best.
     bind (getitem metrics ''test_loss'') (\<lambda>test.
     seq (emit (Scatter best test ''test''))
    (seq (emit (PltCall ''legend''))
    (seq (emit (PltCall ''xlabel''))
    (seq (emit (PltCall ''ylabel''))
    (seq (emit (PltCall ''title''))
    (seq (emit (PltCall ''tight_layout''))
         (emit (PltCall ''show''))))))))))))))))))"

text \<open>
  The cell that prints accuracy and confusion matrix:
  \<^verbatim>\<open>
  print(metrics['label_to_class'])
  print('Test accuracy: {:.2f}%'.format(metrics['test_accuracy']*100))
  print('Test confusion matrix:')
  print(metrics['test_confusion_matrix'])
  \<close>
  Only a float can be multiplied by 100 and then formatted with \<open>.2f\<close> (the product
  with NaN is NaN); for the other values either the product or the format raises
  \<open>TypeError\<close>.
\<close>

definition times_100 :: "pyval \<Rightarrow> py_error + pyfloat" where
  "times_100 v =
     (case v of
        Num (Fin a) \<Rightarrow> Inr (Fin (a * 100))
      | Num NaN \<Rightarrow> Inr NaN
      | _ \<Rightarrow> Inl TypeError)"

definition print_cell :: "(string \<rightharpoonup> pyval) \<Rightarrow> unit run" where
  "print_cell metrics =
     bind (getitem metrics ''label_to_class'') (\<lambda>labels.
     seq (emit (Print labels))
    (bind (getitem metrics ''test_accuracy'') (\<lambda>acc.
     bind (lift (times_100 acc)) (\<lambda>pct.
     seq (emit (PrintAccuracy pct))
    (seq (emit (PrintText ''Test confusion matrix:''))
    (bind (getitem metrics ''test_confusion_matrix'') (\<lambda>cm.
          emit (Print cm))))))))"

text \<open>The keys a run has read, and the six keys of the metrics file.\<close>

definition keys_read :: "event list \<Rightarrow> string list" where
  "keys_read tr = concat (map (\<lambda>e. case e of GetItem k \<Rightarrow> [k] | _ \<Rightarrow> []) tr)"

definition metrics_keys :: "string list" where
  "metrics_keys =
     [''train_losses'', ''val_losses'', ''test_loss'', ''test_accuracy'',
      ''test_confusion_matrix'', ''label_to_class'']"

definition is_key_error :: "py_error + 'a \<Rightarrow> bool" where
  "is_key_error r = (case r of Inl (KeyError k) \<Rightarrow> True | _ \<Rightarrow> False)"

text \<open>
  A metrics dictionary of the shape the training script pickles (accuracy, confusion
  matrix and labels as in the notebook's output) and the store of its float objects:
  objects 0 to 4 are the training losses, objects 5 to 9 the validation losses.
\<close>

definition example_store :: store where
  "example_store =
     (\<lambda>r. NaN)(0 := Fin 1.2, 1 := Fin 0.7, 2 := Fin 0.5, 3 := Fin 0.4, 4 := Fin 0.3,
               5 := Fin 1.1, 6 := Fin 0.6, 7 := Fin 0.4, 8 := Fin 0.3, 9 := Fin 0.2140)"

definition example_metrics :: "string \<rightharpoonup> pyval" where
  "example_metrics =
     [''train_losses'' \<mapsto> NumList [0, 1, 2, 3, 4],
      ''val_losses'' \<mapsto> NumList [5, 6, 7, 8, 9],
      ''test_loss'' \<mapsto> Num (Fin 0.9),
      ''test_accuracy'' \<mapsto> Num (Fin (2 / 3)),
      ''test_confusion_matrix'' \<mapsto> Matrix [[8, 0, 0], [1, 11, 0], [0, 11, 5]],
      ''label_to_class'' \<mapsto> Dict [(0, ''metal_sheet''), (1, ''plastic''), (2, ''thatch''), (3, ''other'')]]"

subsection \<open>The example command lines\<close>

text \<open>
  The two markdown cells show one shell command each.  They are kept as the notebook
  has them; the backslash before \<open>=\<close> in the checkpoint name is the character
  \<open>0x5C\<close>.
\<close>

definition train_command :: string where
  "train_command = ''python train.py --exp-version example --data-dir ../../data/processed/example_chipped_datasets/roof_material_classification/ --tile-split-file ../../config/examples/data_preprocessing/tiled_dataset_splits/tiled_dataset_splits_1.yml --output-dir ../../outputs/''"

definition inference_command :: string where
  "inference_command = ''python inference.py --checkpoint-path ../../outputs/roof_material_classification/example-2024-01-19-01-44-00/checkpoints/epoch'' @ [CHR 0x5C] @ ''=4_val_loss'' @ [CHR 0x5C] @ ''=0.2140.ckpt --image-dir ../../data/interim/example_mosaic_cogs/ --building-detections-dir ../../outputs/semantic_segmentation/example-2024-01-19-01-06-30/inference/''"

text \<open>The words of a command line: the non-empty pieces between spaces.\<close>

fun split_on :: "char \<Rightarrow> string \<Rightarrow> string list" where
  "split_on d [] = [[]]"
| "split_on d (c # cs) =
     (if c = d then [] # split_on d cs
      else (case split_on d cs of w # ws \<Rightarrow> (c # w) # ws | [] \<Rightarrow> [[c]]))"

definition words :: "string \<Rightarrow> string list" where
  "words s = filter (\<lambda>w. w \<noteq> []) (split_on CHR '' '' s)"

subsection \<open>Annotations\<close>

text \<open>
  A GeoDataFrame is the list of its rows, in order.  A row has its index label, the
  two attribute columns the notebook looks at (\<open>None\<close> is a null cell) and a geometry.
\<close>

datatype geom = Point real real | Polygon "(real \<times> real) list"

record row =
  idx :: nat
  building :: "string option"
  roof_material :: "string option"
  geometry :: geom

text \<open>
  \<^verbatim>\<open>annotations = gpd.read_file(annotations_f).to_crs(32636)\<close>

  \<open>to_crs\<close> replaces every geometry by its image under the coordinate transformation
  from the file's reference system to EPSG:32636 and leaves the other columns alone.
  The transformation is computed by the projection library; it is a parameter here.
\<close>

fun map_geom :: "(real \<times> real \<Rightarrow> real \<times> real) \<Rightarrow> geom \<Rightarrow> geom" where
  "map_geom f (Point x y) = (case f (x, y) of (x', y') \<Rightarrow> Point x' y')"
| "map_geom f (Polygon ps) = Polygon (map f ps)"

definition to_crs :: "(real \<times> real \<Rightarrow> real \<times> real) \<Rightarrow> row list \<Rightarrow> row list" where
  "to_crs f gdf = map (\<lambda>r. r\<lparr>geometry := map_geom f (geometry r)\<rparr>) gdf"

text \<open>
  \<^verbatim>\<open>annotations[~annotations["building"].isna() & annotations["roof:material"].isna()].copy()\<close>

  \<open>isna\<close> gives one boolean per row, \<open>~\<close> and \<open>&\<close> work row by row (\<open>~\<close> binds
  tighter than \<open>&\<close>), and indexing by the mask keeps the rows whose boolean is true.
\<close>

definition isna :: "(row \<Rightarrow> string option) \<Rightarrow> row list \<Rightarrow> bool list" where
  "isna col gdf = map (\<lambda>r. col r = None) gdf"

definition mask_not :: "bool list \<Rightarrow> bool list" where
  "mask_not m = map Not m"

definition mask_and :: "bool list \<Rightarrow> bool list \<Rightarrow> bool list" where
  "mask_and m n = map (\<lambda>(a, b). a \<and> b) (zip m n)"

definition boolean_index :: "row list \<Rightarrow> bool list \<Rightarrow> row list" where
  "boolean_index gdf m = map fst (filter snd (zip gdf m))"

definition select_unlabeled :: "row list \<Rightarrow> row list" where
  "select_unlabeled gdf =
     boolean_index gdf (mask_and (mask_not (isna building gdf)) (isna roof_material gdf))"

subsection \<open>The raster and the point filter\<close>

text \<open>An open raster, as far as the notebook uses it: its bounds.\<close>

record raster =
  left :: real
  bottom :: real
  right :: real
  top :: real

text \<open>
  Modelled from the spec: the point filter is imported from \<open>src.geo_utils\<close>, which
  is not among the sources; the spec describes it as restricting a set of point or
  polygon annotations to those falling within a raster's spatial extent.  A point
  falls within the extent when it lies in the rectangle of the bounds, a polygon when
  all its vertices do.
\<close>

definition in_bounds :: "raster \<Rightarrow> real \<times> real \<Rightarrow> bool" where
  "in_bounds src p =
     (left src \<le> fst p \<and> fst p \<le> right src \<and> bottom src \<le> snd p \<and> snd p \<le> top src)"

fun falls_within :: "geom \<Rightarrow> raster \<Rightarrow> bool" where
  "falls_within (Point x y) src = in_bounds src (x, y)"
| "falls_within (Polygon ps) src = list_all (in_bounds src) ps"

text \<open>
  Modelled from the spec: \<open>filter_points_to_raster(gdf, src)\<close> (module
  \<open>src.geo_utils\<close>, not among the sources) keeps the rows of \<open>gdf\<close> whose geometry
  falls within the extent of the raster \<open>src\<close>.
\<close>

definition filter_points_to_raster :: "row list \<Rightarrow> raster \<Rightarrow> row list" where
  "filter_points_to_raster gdf src = filter (\<lambda>r. falls_within (geometry r) src) gdf"

subsection \<open>The inference cell\<close>

text \<open>
  The cell acts on files and calls collaborators that are not part of the notebook.
  The state is the set of paths that exist together with the list of actions done so
  far; a statement takes a state and returns its outcome and the next state.
\<close>

datatype nsval = IntV int | Device string

datatype arg = Str string | Namespace "(string \<times> nsval) list"

datatype action =
    PrintCount string nat
  | TempFile string
  | ToFile string "row list" string
  | Mkdir string
  | Call "arg list"
  | Unlink string

record world =
  files :: "string set"
  trace :: "action list"

type_synonym 'a stmt = "world \<Rightarrow> (py_error + 'a) \<times> world"

definition log :: "action \<Rightarrow> world \<Rightarrow> world" where
  "log a w = w\<lparr>trace := trace w @ [a]\<rparr>"

definition then_stmt :: "unit stmt \<Rightarrow> unit stmt \<Rightarrow> unit stmt" where
  "then_stmt s t w =
     (case s w of
        (Inl e, w') \<Rightarrow> (Inl e, w')
      | (Inr _, w') \<Rightarrow> t w')"

text \<open>
  \<^verbatim>\<open>try: body finally: cleanup\<close>.  The cleanup runs after the body whatever the body's
  outcome.  An exception of the cleanup replaces the outcome of the body; otherwise
  the outcome of the body stands.
\<close>

definition try_finally :: "unit stmt \<Rightarrow> unit stmt \<Rightarrow> unit stmt" where
  "try_finally body cleanup w =
     (case body w of
        (r, w') \<Rightarrow>
          (case cleanup w' of
             (Inl e, w'') \<Rightarrow> (Inl e, w'')
           | (Inr _, w'') \<Rightarrow> (r, w'')))"

text \<open>
  What a collaborator does to the files, and whether it raises, is not constrained: it
  is a function from the existing paths to an optional exception and the paths
  existing afterwards.
\<close>

type_synonym effect = "string set \<Rightarrow> py_error option \<times> string set"

definition external :: "action \<Rightarrow> effect \<Rightarrow> unit stmt" where
  "external a eff w =
     (case eff (files w) of
        (None, fs) \<Rightarrow> (Inr (), (log a w)\<lparr>files := fs\<rparr>)
      | (Some e, fs) \<Rightarrow> (Inl e, (log a w)\<lparr>files := fs\<rparr>))"

text \<open>\<^verbatim>\<open>Path(p).unlink()\<close> removes the file and raises when there is none.\<close>

definition unlink :: "string \<Rightarrow> unit stmt" where
  "unlink p w =
     (if p \<in> files w then (Inr (), (log (Unlink p) w)\<lparr>files := files w - {p}\<rparr>)
      else (Inl (OSError ''FileNotFoundError''), log (Unlink p) w))"

text \<open>\<^verbatim>\<open>tempfile.NamedTemporaryFile(suffix='.gpkg', delete=False)\<close> creates the file.\<close>

definition named_temporary_file :: "string \<Rightarrow> world \<Rightarrow> world" where
  "named_temporary_file p w = (log (TempFile p) w)\<lparr>files := insert p (files w)\<rparr>"

text \<open>
  \<open>Path(p).name\<close> and \<open>Path(p).parent\<close> for a path in normal form (no trailing
  slash, no doubled slash, no component \<open>.\<close>): the parent of a name without a slash is \<open>.\<close>, the parent
  of a name directly under the root is the root.
\<close>

definition path_name :: "string \<Rightarrow> string" where
  "path_name p = rev (takeWhile (\<lambda>c. c \<noteq> CHR ''/'') (rev p))"

definition path_parent :: "string \<Rightarrow> string" where
  "path_parent p =
     (if CHR ''/'' \<in> set p
      then (let d = rev (drop 1 (dropWhile (\<lambda>c. c \<noteq> CHR ''/'') (rev p)))
            in if d = [] then ''/'' else d)
      else ''.'')"

definition annotations_f :: string where
  "annotations_f = ''../data/interim/example_annotations/polygons-Kakuma_15.gpkg''"

definition imagery_f :: string where
  "imagery_f = ''../data/interim/example_mosaic_cogs/kakuma_15.tif''"

definition checkpoint_f :: string where
  "checkpoint_f = ''../outputs/roof_material_classification/example-2024-01-19-01-44-00/checkpoints/epoch=4_val_loss=0.2140.ckpt''"

definition out_f :: string where
  "out_f = ''../outputs/roof_material_classification/example-2024-01-19-01-44-00/inference/epoch=4_val_loss=0.2140/kakuma_15-annotations-predictions.gpkg''"

text \<open>
  What the cell gets from outside: the rows \<open>read_file\<close> returns for \<open>annotations_f\<close>,
  the coordinate transformation of \<open>to_crs\<close>, the raster \<open>rasterio.open\<close> returns for
  \<open>imagery_f\<close>, the name of the temporary file, and the effects of \<open>to_file\<close>,
  \<open>mkdir\<close> and the inference function.
\<close>

record env =
  file_rows :: "row list"
  transform :: "real \<times> real \<Rightarrow> real \<times> real"
  src :: raster
  temp_name :: string
  to_file_effect :: effect
  mkdir_effect :: effect
  inference_effect :: effect

text \<open>
  \<^verbatim>\<open>
  annotations = gpd.read_file(annotations_f).to_crs(32636)
  annotations = annotations[~annotations["building"].isna() & annotations["roof:material"].isna()].copy()
  \<close>
\<close>

definition load_annotations :: "env \<Rightarrow> row list" where
  "load_annotations e = to_crs (transform e) (file_rows e)"

definition selected_annotations :: "env \<Rightarrow> row list" where
  "selected_annotations e = select_unlabeled (load_annotations e)"

text \<open>
  The body of the \<open>try\<close>:
  \<^verbatim>\<open>
  annotations.to_file(temp.name, driver='GeoJSON')
  checkpoint_f = '...'
  out_f = '...'
  Path(out_f).parent.mkdir(parents=True, exist_ok=True)
  args = SimpleNamespace(batch_size=64, num_workers=12, device=torch.device("cuda:0"))
  roof_material_inference(checkpoint_f, imagery_f, temp.name, out_f, args)
  \<close>
\<close>

definition inference_args :: "string \<Rightarrow> arg list" where
  "inference_args tmp =
     [Str checkpoint_f, Str imagery_f, Str tmp, Str out_f,
      Namespace [(''batch_size'', IntV 64), (''num_workers'', IntV 12),
                 (''device'', Device ''cuda:0'')]]"

definition try_body :: "env \<Rightarrow> row list \<Rightarrow> unit stmt" where
  "try_body e annotations =
     then_stmt (external (ToFile (temp_name e) annotations ''GeoJSON'') (to_file_effect e))
    (then_stmt (external (Mkdir (path_parent out_f)) (mkdir_effect e))
               (external (Call (inference_args (temp_name e))) (inference_effect e)))"

text \<open>
  The whole cell.  The point filter is imported from another module and is a parameter.
  \<^verbatim>\<open>
  with rasterio.open(imagery_f) as src:
      filtered_annotations = filter_points_to_raster(annotations, src)
  print('Unlabeled roofs in imagery file {}: {}'.format(Path(imagery_f).name, len(filtered_annotations)))
  temp = tempfile.NamedTemporaryFile(suffix='.gpkg', delete=False)
  try:
      ...
  finally:
      Path(temp.name).unlink()
  \<close>
\<close>

definition inference_cell :: "(row list \<Rightarrow> raster \<Rightarrow> row list) \<Rightarrow> env \<Rightarrow> unit stmt" where
  "inference_cell flt e w =
     (let annotations = selected_annotations e;
          filtered_annotations = flt annotations (src e);
          w1 = log (PrintCount (path_name imagery_f) (length filtered_annotations)) w;
          w2 = named_temporary_file (temp_name e) w1
      in try_finally (try_body e annotations) (unlink (temp_name e)) w2)"

definition notebook_cell :: "env \<Rightarrow> unit stmt" where
  "notebook_cell = inference_cell filter_points_to_raster"

text \<open>The calls of the inference function, the saved frames and the removed files of a trace.\<close>

definition calls :: "action list \<Rightarrow> arg list list" where
  "calls tr = concat (map (\<lambda>a. case a of Call args \<Rightarrow> [args] | _ \<Rightarrow> []) tr)"

definition saved :: "action list \<Rightarrow> (string \<times> row list) list" where
  "saved tr = concat (map (\<lambda>a. case a of ToFile p rows d \<Rightarrow> [(p, rows)] | _ \<Rightarrow> []) tr)"

definition unlinked :: "action list \<Rightarrow> string list" where
  "unlinked tr = concat (map (\<lambda>a. case a of Unlink p \<Rightarrow> [p] | _ \<Rightarrow> []) tr)"

definition is_print :: "action \<Rightarrow> bool" where
  "is_print a = (case a of PrintCount n c \<Rightarrow> True | _ \<Rightarrow> False)"

subsection \<open>A sample run\<close>

text \<open>
  An annotations file in geographic coordinates (degrees) with four rows, a raster, and
  collaborators that succeed.  \<open>example_transform\<close> stands for the projection from
  degrees to the metres of EPSG:32636 (UTM zone 36N): the projection itself is computed
  outside the notebook; like it, the stand-in sends longitude 33, latitude 0 to easting
  500000, northing 0.
\<close>

definition example_transform :: "real \<times> real \<Rightarrow> real \<times> real" where
  "example_transform p = (500000 + 111000 * (fst p - 33), 111000 * snd p)"

definition example_rows :: "row list" where
  "example_rows =
     [\<lparr>idx = 0, building = Some ''yes'', roof_material = None,
       geometry = Polygon [(33, 0), (34, 0), (34, 1)]\<rparr>,
      \<lparr>idx = 1, building = Some ''yes'', roof_material = Some ''metal_sheet'',
       geometry = Polygon [(33, 0), (33, 1), (34, 1)]\<rparr>,
      \<lparr>idx = 2, building = None, roof_material = None,
       geometry = Point 33 0\<rparr>,
      \<lparr>idx = 3, building = Some ''yes'', roof_material = None,
       geometry = Point 40 2\<rparr>]"

definition example_raster :: raster where
  "example_raster = \<lparr>left = 400000, bottom = 0, right = 700000, top = 200000\<rparr>"

definition example_env :: env where
  "example_env =
     \<lparr>file_rows = example_rows, transform = example_transform, src = example_raster,
      temp_name = ''/tmp/tmpk3v9.gpkg'',
      to_file_effect = (\<lambda>fs. (None, fs)),
      mkdir_effect = (\<lambda>fs. (None, fs)),
      inference_effect = (\<lambda>fs. (None, insert out_f fs))\<rparr>"

text \<open>
  The call as the specification words it: exactly a checkpoint path, an image
  directory, a building-detection directory, a batch size, a worker count and a device.
\<close>

definition spec_listed_call :: "string \<Rightarrow> arg list" where
  "spec_listed_call tmp =
     [Str checkpoint_f, Str imagery_f, Str tmp,
      Namespace [(''batch_size'', IntV 64), (''num_workers'', IntV 12),
                 (''device'', Device ''cuda:0'')]]"

section \<open>Properties\<close>

subsection \<open>The best epoch\<close>

lemma float_eq_Fin [simp]: "float_eq v (Fin m) \<longleftrightarrow> v = Fin m"
  by (cases v) auto

lemma numbers_simps [simp]:
  "numbers [] = []"
  "numbers (Fin x # vs) = x # numbers vs"
  "numbers (NaN # vs) = numbers vs"
  by (simp_all add: numbers_def)




lemma foldl_min_member:
  "foldl (\<lambda>m y. if float_lt (h y) (h m) then y else m) x xs \<in> set (x # xs)"
  by (induction xs arbitrary: x) auto

text \<open>An object of the list is found; if it is a number, at the first position of that number.\<close>

lemma index_from_member:
  "v \<in> set xs \<Longrightarrow> \<exists>k. index_from h i xs v = Inr (i + k) \<and> k < length xs"
proof (induction xs arbitrary: i)
  case Nil
  then show ?case by simp
next
  case (Cons x xs)
  show ?case
  proof (cases "x = v \<or> float_eq (h x) (h v)")
    case True
    then show ?thesis by (intro exI [of _ 0]) auto
  next
    case False
    with Cons.prems have "v \<in> set xs" by auto
    from Cons.IH [OF this, of "Suc i"] obtain k where
      "index_from h (Suc i) xs v = Inr (Suc i + k)" "k < length xs"
      by blast
    with False show ?thesis by (intro exI [of _ "Suc k"]) auto
  qed
qed






subsection \<open>The metrics cells\<close>

lemma bind_simps [simp]:
  "bind (tr, Inl e) f = (tr, Inl e)"
  "bind (tr, Inr x) f = (tr @ fst (f x), snd (f x))"
  by (simp_all add: bind_def split: prod.splits)

lemma keys_read_simps [simp]:
  "keys_read [] = []"
  "keys_read (GetItem k # tr) = k # keys_read tr"
  "keys_read (PltCall s # tr) = keys_read tr"
  "keys_read (Plot v s # tr) = keys_read tr"
  "keys_read (Scatter n v s # tr) = keys_read tr"
  "keys_read (Print v # tr) = keys_read tr"
  "keys_read (PrintText s # tr) = keys_read tr"
  "keys_read (PrintAccuracy a # tr) = keys_read tr"
  "keys_read (tr @ tr') = keys_read tr @ keys_read tr'"
  by (simp_all add: keys_read_def)

lemma plot_cell_present:
  assumes "metrics ''train_losses'' = Some trn" "metrics ''val_losses'' = Some vl"
    "metrics ''test_loss'' = Some t"
  shows "plot_cell h metrics =
     (case getattr_index vl of
        Inl e \<Rightarrow> ([PltCall ''figure'', GetItem ''train_losses'', Plot trn ''train'',
                   GetItem ''val_losses'', Plot vl ''val'', GetItem ''val_losses''], Inl e)
      | Inr xs \<Rightarrow>
          (case (case builtin_min h vl of Inl e \<Rightarrow> Inl e | Inr m \<Rightarrow> py_index h xs m) of
             Inl e \<Rightarrow> ([PltCall ''figure'', GetItem ''train_losses'', Plot trn ''train'',
                        GetItem ''val_losses'', Plot vl ''val'', GetItem ''val_losses'',
                        GetItem ''val_losses''], Inl e)
           | Inr b \<Rightarrow> ([PltCall ''figure'', GetItem ''train_losses'', Plot trn ''train'',
                        GetItem ''val_losses'', Plot vl ''val'', GetItem ''val_losses'',
                        GetItem ''val_losses'', GetItem ''test_loss'', Scatter b t ''test'',
                        PltCall ''legend'', PltCall ''xlabel'', PltCall ''ylabel'',
                        PltCall ''title'', PltCall ''tight_layout'', PltCall ''show''],
                       Inr ())))"
  using assms
  by (simp add: plot_cell_def seq_def emit_def getitem_def lift_def split: sum.splits)

lemma print_cell_present:
  assumes "metrics ''label_to_class'' = Some l" "metrics ''test_accuracy'' = Some a"
    "metrics ''test_confusion_matrix'' = Some c"
  shows "print_cell metrics =
     (case times_100 a of
        Inl e \<Rightarrow> ([GetItem ''label_to_class'', Print l, GetItem ''test_accuracy''], Inl e)
      | Inr pct \<Rightarrow> ([GetItem ''label_to_class'', Print l, GetItem ''test_accuracy'',
                     PrintAccuracy pct, PrintText ''Test confusion matrix:'',
                     GetItem ''test_confusion_matrix'', Print c], Inr ()))"
  using assms
  by (simp add: print_cell_def seq_def emit_def getitem_def lift_def split: sum.splits)

lemma index_from_no_key: "\<not> is_key_error (index_from h i xs v)"
  by (induction xs arbitrary: i) (simp_all add: is_key_error_def)

lemma py_min_cases: "py_min h xs = Inl ValueError \<or> (\<exists>m. py_min h xs = Inr m)"
  by (cases xs) simp_all

lemma getattr_index_no_key: "\<not> is_key_error (getattr_index recv)"
  by (cases recv) (simp_all add: getattr_index_def is_key_error_def)

lemma min_then_index_no_key:
  "\<not> is_key_error (case builtin_min h arg of Inl e \<Rightarrow> Inl e | Inr m \<Rightarrow> py_index h xs m)"
proof (cases arg)
  case (NumList ys)
  from py_min_cases [of h ys] show ?thesis
  proof
    assume "py_min h ys = Inl ValueError"
    with NumList show ?thesis by (simp add: builtin_min_def is_key_error_def)
  next
    assume "\<exists>m. py_min h ys = Inr m"
    then obtain m where "py_min h ys = Inr m" ..
    with NumList index_from_no_key [of h 0 xs m] show ?thesis
      by (simp add: builtin_min_def py_index_def)
  qed
qed (simp_all add: builtin_min_def is_key_error_def)

lemma times_100_no_key: "\<not> is_key_error (times_100 v)"
  by (cases v) (simp_all add: times_100_def is_key_error_def split: pyfloat.splits)

lemma min_then_index_nonempty:
  assumes "xs \<noteq> []"
  shows "\<exists>i. (case builtin_min h (NumList xs) of Inl e \<Rightarrow> Inl e | Inr m \<Rightarrow> py_index h xs m) = Inr i"
proof -
  from assms obtain x rest where xs: "xs = x # rest" by (cases xs) auto
  let ?r = "foldl (\<lambda>m y. if float_lt (h y) (h m) then y else m) x rest"
  have "?r \<in> set xs"
    unfolding xs by (rule foldl_min_member)
  from index_from_member [where h = h and i = 0, OF this] obtain k where "index_from h 0 xs ?r = Inr k"
    by auto
  then show ?thesis
    by (simp add: builtin_min_def py_index_def xs)
qed

text \<open>The marker of the test loss is drawn at the best epoch.\<close>

lemma plot_cell_marker_at_best_epoch:
  assumes "metrics ''train_losses'' = Some trn" "metrics ''val_losses'' = Some (NumList xs)"
    "metrics ''test_loss'' = Some t" "best_epoch h xs = Inr i"
  shows "Scatter i t ''test'' \<in> set (fst (plot_cell h metrics))"
proof -
  from assms(4) have "(case builtin_min h (NumList xs) of Inl e \<Rightarrow> Inl e | Inr m \<Rightarrow> py_index h xs m) = Inr i"
    by (simp add: best_epoch_def builtin_min_def)
  then show ?thesis
    unfolding plot_cell_present [OF assms(1) assms(2) assms(3)]
    by (simp add: getattr_index_def)
qed

text \<open>
  C4: for every metrics dictionary that contains the six keys \<open>train_losses\<close>,
  \<open>val_losses\<close>, \<open>test_loss\<close>, \<open>test_accuracy\<close>, \<open>test_confusion_matrix\<close> and
  \<open>label_to_class\<close>, the plotting cell and the printing cell read only those six keys
  and neither raises a key error; with a non-empty list of validation losses the
  plotting cell completes, and with a numeric accuracy the printing cell completes.
\<close>

theorem metrics_cells_read_six_keys:
  assumes "set metrics_keys \<subseteq> dom metrics"
  shows "set (keys_read (fst (plot_cell h metrics))) \<subseteq> set metrics_keys
       \<and> set (keys_read (fst (print_cell metrics))) \<subseteq> set metrics_keys
       \<and> \<not> is_key_error (snd (plot_cell h metrics))
       \<and> \<not> is_key_error (snd (print_cell metrics))
       \<and> (\<forall>xs. metrics ''val_losses'' = Some (NumList xs) \<and> xs \<noteq> []
              \<longrightarrow> snd (plot_cell h metrics) = Inr ())
       \<and> (\<forall>a. metrics ''test_accuracy'' = Some (Num a) \<longrightarrow> snd (print_cell metrics) = Inr ())"
proof -
  have present: "k \<in> set metrics_keys \<Longrightarrow> \<exists>v. metrics k = Some v" for k
    using assms by blast
  have "\<exists>v. metrics ''train_losses'' = Some v" "\<exists>v. metrics ''val_losses'' = Some v"
    "\<exists>v. metrics ''test_loss'' = Some v" "\<exists>v. metrics ''test_accuracy'' = Some v"
    "\<exists>v. metrics ''test_confusion_matrix'' = Some v" "\<exists>v. metrics ''label_to_class'' = Some v"
    by (rule present, simp add: metrics_keys_def)+
  then obtain trn vl t a c l where
    vals: "metrics ''train_losses'' = Some trn" "metrics ''val_losses'' = Some vl"
      "metrics ''test_loss'' = Some t" "metrics ''test_accuracy'' = Some a"
      "metrics ''test_confusion_matrix'' = Some c" "metrics ''label_to_class'' = Some l"
    by blast
  note plot = plot_cell_present [OF vals(1) vals(2) vals(3)]
  note prnt = print_cell_present [OF vals(6) vals(4) vals(5)]
  have k1: "set (keys_read (fst (plot_cell h metrics))) \<subseteq> set metrics_keys"
    unfolding plot by (simp add: metrics_keys_def split: sum.splits)
  have k2: "set (keys_read (fst (print_cell metrics))) \<subseteq> set metrics_keys"
    unfolding prnt by (cases "times_100 a") (simp_all add: metrics_keys_def)
  have e1: "\<not> is_key_error (snd (plot_cell h metrics))"
  proof (cases "getattr_index vl")
    case (Inl x)
    with getattr_index_no_key [of vl] show ?thesis
      unfolding plot by (simp add: is_key_error_def)
  next
    case (Inr xs)
    with min_then_index_no_key [where arg = vl and xs = xs and h = h] show ?thesis
      unfolding plot by (simp add: is_key_error_def split: sum.splits)
  qed
  have e2: "\<not> is_key_error (snd (print_cell metrics))"
    unfolding prnt using times_100_no_key [of a]
    by (cases "times_100 a") (simp_all add: is_key_error_def)
  have c1: "snd (plot_cell h metrics) = Inr ()"
    if "metrics ''val_losses'' = Some (NumList xs) \<and> xs \<noteq> []" for xs
  proof -
    from that vals(2) have "vl = NumList xs" "xs \<noteq> []" by simp_all
    with min_then_index_nonempty [where xs = xs and h = h] obtain i where
      "(case builtin_min h vl of Inl e \<Rightarrow> Inl e | Inr m \<Rightarrow> py_index h xs m) = Inr i"
      by auto
    with \<open>vl = NumList xs\<close> show ?thesis
      unfolding plot by (simp add: getattr_index_def)
  qed
  have c2: "snd (print_cell metrics) = Inr ()" if "metrics ''test_accuracy'' = Some (Num x)" for x
  proof -
    from that vals(4) have "\<exists>pct. times_100 a = Inr pct"
      by (cases x) (simp_all add: times_100_def)
    then show ?thesis unfolding prnt by auto
  qed
  from k1 k2 e1 e2 c1 c2 show ?thesis by blast
qed

lemma example_dom: "set metrics_keys \<subseteq> dom example_metrics"
  by (simp add: metrics_keys_def example_metrics_def)

lemma example_val: "example_metrics ''val_losses'' = Some (NumList [5, 6, 7, 8, 9])"
  by (simp add: example_metrics_def)

lemma example_acc: "example_metrics ''test_accuracy'' = Some (Num (Fin (2 / 3)))"
  by (simp add: example_metrics_def)

theorem metrics_cells_read_six_keys_witness:
  "set metrics_keys \<subseteq> dom example_metrics
   \<and> example_metrics ''val_losses'' = Some (NumList [5, 6, 7, 8, 9])
   \<and> [5, 6, 7, 8, 9 :: objref] \<noteq> []
   \<and> example_metrics ''test_accuracy'' = Some (Num (Fin (2 / 3)))
   \<and> set (keys_read (fst (plot_cell example_store example_metrics))) \<subseteq> set metrics_keys
   \<and> set (keys_read (fst (print_cell example_metrics))) \<subseteq> set metrics_keys
   \<and> \<not> is_key_error (snd (plot_cell example_store example_metrics))
   \<and> \<not> is_key_error (snd (print_cell example_metrics))
   \<and> snd (plot_cell example_store example_metrics) = Inr ()
   \<and> snd (print_cell example_metrics) = Inr ()"
  using metrics_cells_read_six_keys [OF example_dom, of example_store] example_dom example_val example_acc
  by blast

subsection \<open>The example command lines\<close>

lemma words_train_command:
  "words train_command =
     [''python'', ''train.py'', ''--exp-version'', ''example'', ''--data-dir'',
      ''../../data/processed/example_chipped_datasets/roof_material_classification/'',
      ''--tile-split-file'',
      ''../../config/examples/data_preprocessing/tiled_dataset_splits/tiled_dataset_splits_1.yml'',
      ''--output-dir'', ''../../outputs/'']"
  by (simp add: words_def train_command_def)

lemma words_inference_command:
  "words inference_command =
     [''python'', ''inference.py'', ''--checkpoint-path'',
      ''../../outputs/roof_material_classification/example-2024-01-19-01-44-00/checkpoints/epoch''
        @ [CHR 0x5C] @ ''=4_val_loss'' @ [CHR 0x5C] @ ''=0.2140.ckpt'',
      ''--image-dir'', ''../../data/interim/example_mosaic_cogs/'',
      ''--building-detections-dir'',
      ''../../outputs/semantic_segmentation/example-2024-01-19-01-06-30/inference/'']"
  by (simp add: words_def inference_command_def)

text \<open>
  C5: the example command lines contain the documented flags.  The command that runs
  \<open>train.py\<close> has the words \<open>--exp-version\<close>, \<open>--data-dir\<close>, \<open>--tile-split-file\<close> and
  \<open>--output-dir\<close>; the command that runs \<open>inference.py\<close> has the words
  \<open>--checkpoint-path\<close>, \<open>--image-dir\<close> and \<open>--building-detections-dir\<close>.
\<close>

theorem example_commands_have_flags:
  "take 2 (words train_command) = [''python'', ''train.py'']
   \<and> ''--exp-version'' \<in> set (words train_command)
   \<and> ''--data-dir'' \<in> set (words train_command)
   \<and> ''--tile-split-file'' \<in> set (words train_command)
   \<and> ''--output-dir'' \<in> set (words train_command)
   \<and> take 2 (words inference_command) = [''python'', ''inference.py'']
   \<and> ''--checkpoint-path'' \<in> set (words inference_command)
   \<and> ''--image-dir'' \<in> set (words inference_command)
   \<and> ''--building-detections-dir'' \<in> set (words inference_command)"
  unfolding words_train_command words_inference_command by simp

subsection \<open>Selection and point filter\<close>

lemma select_unlabeled_filter:
  "select_unlabeled gdf = filter (\<lambda>r. building r \<noteq> None \<and> roof_material r = None) gdf"
  by (induction gdf)
     (simp_all add: select_unlabeled_def boolean_index_def mask_and_def mask_not_def isna_def)

lemma load_example:
  "load_annotations example_env =
     [\<lparr>idx = 0, building = Some ''yes'', roof_material = None,
       geometry = Polygon [(500000, 0), (611000, 0), (611000, 111000)]\<rparr>,
      \<lparr>idx = 1, building = Some ''yes'', roof_material = Some ''metal_sheet'',
       geometry = Polygon [(500000, 0), (500000, 111000), (611000, 111000)]\<rparr>,
      \<lparr>idx = 2, building = None, roof_material = None,
       geometry = Point 500000 0\<rparr>,
      \<lparr>idx = 3, building = Some ''yes'', roof_material = None,
       geometry = Point 1277000 222000\<rparr>]"
  by (simp add: load_annotations_def to_crs_def example_env_def example_rows_def
      example_transform_def)

lemma selected_example:
  "selected_annotations example_env =
     [\<lparr>idx = 0, building = Some ''yes'', roof_material = None,
       geometry = Polygon [(500000, 0), (611000, 0), (611000, 111000)]\<rparr>,
      \<lparr>idx = 3, building = Some ''yes'', roof_material = None,
       geometry = Point 1277000 222000\<rparr>]"
  unfolding selected_annotations_def load_example
  by (simp add: select_unlabeled_filter)

lemma filtered_example:
  "filter_points_to_raster (selected_annotations example_env) example_raster =
     [\<lparr>idx = 0, building = Some ''yes'', roof_material = None,
       geometry = Polygon [(500000, 0), (611000, 0), (611000, 111000)]\<rparr>]"
  unfolding selected_example
  by (simp add: filter_points_to_raster_def in_bounds_def example_raster_def)

text \<open>
  C2: for every annotations frame and every raster, \<open>filter_points_to_raster\<close> returns
  exactly the rows whose geometry falls within the raster's extent: every returned row
  is a row of the input and its geometry falls within the extent, every row of the
  input whose geometry falls within the extent is returned, and the result is the
  input with rows left out, nothing added, changed or reordered.
\<close>

theorem filter_points_to_raster_exact:
  "(\<forall>r\<in>set (filter_points_to_raster gdf ras). falls_within (geometry r) ras \<and> r \<in> set gdf)
   \<and> (\<forall>r\<in>set gdf. falls_within (geometry r) ras \<longrightarrow> r \<in> set (filter_points_to_raster gdf ras))
   \<and> subseq (filter_points_to_raster gdf ras) gdf"
proof -
  have res: "set (filter_points_to_raster gdf ras) = {r \<in> set gdf. falls_within (geometry r) ras}"
    by (simp add: filter_points_to_raster_def)
  have "subseq (filter_points_to_raster gdf ras) gdf"
    unfolding filter_points_to_raster_def by (rule subseq_filter_left)
  with res show ?thesis by simp
qed

theorem filter_points_to_raster_exact_witness:
  "\<lparr>idx = 0, building = Some ''yes'', roof_material = None,
     geometry = Polygon [(500000, 0), (611000, 0), (611000, 111000)]\<rparr>
     \<in> set (selected_annotations example_env)
   \<and> falls_within (Polygon [(500000, 0), (611000, 0), (611000, 111000)]) example_raster
   \<and> \<lparr>idx = 0, building = Some ''yes'', roof_material = None,
       geometry = Polygon [(500000, 0), (611000, 0), (611000, 111000)]\<rparr>
       \<in> set (filter_points_to_raster (selected_annotations example_env) example_raster)
   \<and> \<not> falls_within (Point 1277000 222000) example_raster
   \<and> \<lparr>idx = 3, building = Some ''yes'', roof_material = None, geometry = Point 1277000 222000\<rparr>
       \<notin> set (filter_points_to_raster (selected_annotations example_env) example_raster)
   \<and> subseq (filter_points_to_raster (selected_annotations example_env) example_raster)
       (selected_annotations example_env)"
proof -
  let ?r = "\<lparr>idx = 0, building = Some ''yes'', roof_material = None,
       geometry = Polygon [(500000, 0), (611000, 0), (611000, 111000)]\<rparr>"
  let ?q = "\<lparr>idx = 3, building = Some ''yes'', roof_material = None,
       geometry = Point 1277000 222000\<rparr>"
  note exact = filter_points_to_raster_exact [of "selected_annotations example_env" example_raster]
  have inp: "?r \<in> set (selected_annotations example_env)"
    by (simp add: selected_example)
  have within: "falls_within (geometry ?r) example_raster"
    by (simp add: in_bounds_def example_raster_def)
  have outside: "\<not> falls_within (geometry ?q) example_raster"
    by (simp add: in_bounds_def example_raster_def)
  from exact inp within
  have kept: "?r \<in> set (filter_points_to_raster (selected_annotations example_env) example_raster)"
    by blast
  from exact outside
  have dropped: "?q \<notin> set (filter_points_to_raster (selected_annotations example_env) example_raster)"
    by blast
  from exact
  have sub: "subseq (filter_points_to_raster (selected_annotations example_env) example_raster)
       (selected_annotations example_env)"
    by blast
  from inp within kept outside dropped sub show ?thesis by simp
qed

text \<open>
  C6 (amended): after the selection step every row of \<open>annotations\<close> has a non-null
  \<open>building\<close> and a null \<open>roof:material\<close>; the result is the frame loaded by
  \<open>read_file(...).to_crs(32636)\<close> with rows left out, nothing added, changed or
  reordered; and every row of the result is a row read from the annotations file with
  its geometry reprojected by \<open>to_crs\<close> and its other columns unchanged.
\<close>

theorem selection_rows:
  "(\<forall>r\<in>set (selected_annotations e). building r \<noteq> None \<and> roof_material r = None)
   \<and> subseq (selected_annotations e) (load_annotations e)
   \<and> (\<forall>r\<in>set (selected_annotations e). \<exists>r0\<in>set (file_rows e).
         r = r0\<lparr>geometry := map_geom (transform e) (geometry r0)\<rparr>)"
proof (intro conjI ballI)
  fix r
  assume "r \<in> set (selected_annotations e)"
  then show "building r \<noteq> None" and "roof_material r = None"
    by (simp_all add: selected_annotations_def select_unlabeled_filter)
next
  show "subseq (selected_annotations e) (load_annotations e)"
    by (simp add: selected_annotations_def select_unlabeled_filter)
next
  fix r
  assume "r \<in> set (selected_annotations e)"
  then have "r \<in> set (load_annotations e)"
    by (simp add: selected_annotations_def select_unlabeled_filter)
  then obtain r0 where "r0 \<in> set (file_rows e)"
    and "r = r0\<lparr>geometry := map_geom (transform e) (geometry r0)\<rparr>"
    by (auto simp: load_annotations_def to_crs_def)
  then show "\<exists>r0\<in>set (file_rows e).
      r = r0\<lparr>geometry := map_geom (transform e) (geometry r0)\<rparr>"
    by blast
qed

theorem selection_rows_witness:
  "\<lparr>idx = 3, building = Some ''yes'', roof_material = None, geometry = Point 1277000 222000\<rparr>
     \<in> set (selected_annotations example_env)
   \<and> building \<lparr>idx = 3, building = Some ''yes'', roof_material = None,
        geometry = Point 1277000 222000\<rparr> \<noteq> None
   \<and> roof_material \<lparr>idx = 3, building = Some ''yes'', roof_material = None,
        geometry = Point 1277000 222000\<rparr> = None
   \<and> (\<exists>r0\<in>set (file_rows example_env).
        \<lparr>idx = 3, building = Some ''yes'', roof_material = None,
         geometry = Point 1277000 222000\<rparr>
        = r0\<lparr>geometry := map_geom (transform example_env) (geometry r0)\<rparr>)
   \<and> subseq (selected_annotations example_env) (load_annotations example_env)"
proof -
  let ?r = "\<lparr>idx = 3, building = Some ''yes'', roof_material = None,
      geometry = Point 1277000 222000\<rparr>"
  note sel = selection_rows [of example_env]
  have m: "?r \<in> set (selected_annotations example_env)"
    by (simp add: selected_example)
  from sel m have cols: "building ?r \<noteq> None \<and> roof_material ?r = None"
    by blast
  from sel m have origin: "\<exists>r0\<in>set (file_rows example_env).
      ?r = r0\<lparr>geometry := map_geom (transform example_env) (geometry r0)\<rparr>"
    by blast
  from sel have sub: "subseq (selected_annotations example_env) (load_annotations example_env)"
    by blast
  from m cols origin sub show ?thesis by blast
qed

text \<open>
  The claim as first worded fails where the file is not already in EPSG:32636: in the
  sample run the first selected row carries the reprojected polygon and is not a row
  read from the file.
\<close>

theorem selection_rows_counterexample:
  "selected_annotations example_env =
     [\<lparr>idx = 0, building = Some ''yes'', roof_material = None,
       geometry = Polygon [(500000, 0), (611000, 0), (611000, 111000)]\<rparr>,
      \<lparr>idx = 3, building = Some ''yes'', roof_material = None,
       geometry = Point 1277000 222000\<rparr>]
   \<and> \<lparr>idx = 0, building = Some ''yes'', roof_material = None,
       geometry = Polygon [(500000, 0), (611000, 0), (611000, 111000)]\<rparr>
       \<notin> set (file_rows example_env)
   \<and> \<not> set (selected_annotations example_env) \<subseteq> set (file_rows example_env)"
  unfolding selected_example
  by (simp add: example_env_def example_rows_def)

subsection \<open>The inference cell\<close>

lemma unlinked_simps [simp]:
  "unlinked [] = []"
  "unlinked (tr @ tr') = unlinked tr @ unlinked tr'"
  "unlinked (Unlink p # tr) = p # unlinked tr"
  "unlinked (PrintCount n c # tr) = unlinked tr"
  "unlinked (TempFile p # tr) = unlinked tr"
  "unlinked (ToFile p rows d # tr) = unlinked tr"
  "unlinked (Mkdir p # tr) = unlinked tr"
  "unlinked (Call args # tr) = unlinked tr"
  by (simp_all add: unlinked_def)

lemma unlink_after:
  "files (snd (unlink p w)) = files w - {p} \<and> trace (snd (unlink p w)) = trace w @ [Unlink p]"
  by (simp add: unlink_def log_def)

lemma try_finally_unlink:
  "files (snd (try_finally body (unlink p) w)) = files (snd (body w)) - {p}
   \<and> trace (snd (try_finally body (unlink p) w)) = trace (snd (body w)) @ [Unlink p]"
proof -
  obtain r w' where b: "body w = (r, w')" by (cases "body w")
  obtain r' w'' where u: "unlink p w' = (r', w'')" by (cases "unlink p w'")
  from unlink_after [of p w'] u
  have "files w'' = files w' - {p}" "trace w'' = trace w' @ [Unlink p]" by simp_all
  then show ?thesis
    by (cases r') (simp_all add: try_finally_def b u)
qed

lemma external_trace:
  "unlinked [a] = [] \<Longrightarrow>
     \<exists>acts. trace (snd (external a eff w)) = trace w @ acts \<and> unlinked acts = []"
  by (cases "eff (files w)"; cases "fst (eff (files w))")
     (auto simp: external_def log_def)

lemma then_stmt_trace:
  assumes "\<And>w. \<exists>acts. trace (snd (s w)) = trace w @ acts \<and> unlinked acts = []"
    and "\<And>w. \<exists>acts. trace (snd (t w)) = trace w @ acts \<and> unlinked acts = []"
  shows "\<exists>acts. trace (snd (then_stmt s t w)) = trace w @ acts \<and> unlinked acts = []"
proof -
  obtain r w' where sw: "s w = (r, w')" by (cases "s w")
  from assms(1) [of w] sw obtain a1 where a1: "trace w' = trace w @ a1" "unlinked a1 = []"
    by auto
  show ?thesis
  proof (cases r)
    case (Inl e)
    with sw a1 show ?thesis by (simp add: then_stmt_def)
  next
    case (Inr u)
    from assms(2) [of w'] obtain a2 where a2: "trace (snd (t w')) = trace w' @ a2" "unlinked a2 = []"
      by auto
    with Inr sw a1 show ?thesis by (simp add: then_stmt_def)
  qed
qed

lemma try_body_trace:
  "\<exists>acts. trace (snd (try_body e ann w)) = trace w @ acts \<and> unlinked acts = []"
  unfolding try_body_def
  by (intro then_stmt_trace external_trace) simp_all

text \<open>
  C3: the temporary file is deleted in the cleanup of the \<open>try\<close>: whatever the save of
  the GeoDataFrame, the creation of the output directory and the call of the inference
  function do, and whether they return or raise, the last action of the cell is the
  unlink of \<open>temp.name\<close>, no earlier action of the cell is an unlink, and afterwards
  the file does not exist.
\<close>

theorem temp_file_always_unlinked:
  "temp_name e \<notin> files (snd (inference_cell flt e w))
   \<and> (\<exists>acts. trace (snd (inference_cell flt e w)) = trace w @ acts @ [Unlink (temp_name e)]
         \<and> unlinked acts = [])"
proof -
  let ?ann = "selected_annotations e"
  let ?w2 = "named_temporary_file (temp_name e)
     (log (PrintCount (path_name imagery_f) (length (flt ?ann (src e)))) w)"
  have cell: "inference_cell flt e w = try_finally (try_body e ?ann) (unlink (temp_name e)) ?w2"
    by (simp add: inference_cell_def Let_def)
  have t2: "trace ?w2 = trace w @ [PrintCount (path_name imagery_f) (length (flt ?ann (src e))),
      TempFile (temp_name e)]"
    by (simp add: named_temporary_file_def log_def)
  from try_body_trace [of e ?ann ?w2] obtain acts where
    acts: "trace (snd (try_body e ?ann ?w2)) = trace ?w2 @ acts" "unlinked acts = []"
    by blast
  have "temp_name e \<notin> files (snd (inference_cell flt e w))"
    unfolding cell using try_finally_unlink [of "try_body e ?ann" "temp_name e" ?w2] by simp
  moreover have "trace (snd (inference_cell flt e w)) =
      trace w @ ([PrintCount (path_name imagery_f) (length (flt ?ann (src e))),
      TempFile (temp_name e)] @ acts) @ [Unlink (temp_name e)]"
    unfolding cell using try_finally_unlink [of "try_body e ?ann" "temp_name e" ?w2] acts(1) t2
    by simp
  moreover have "unlinked ([PrintCount (path_name imagery_f) (length (flt ?ann (src e))),
      TempFile (temp_name e)] @ acts) = []"
    using acts(2) by simp
  ultimately show ?thesis by blast
qed


lemma saved_simps [simp]:
  "saved [] = []"
  "saved (tr @ tr') = saved tr @ saved tr'"
  "saved (Unlink p # tr) = saved tr"
  "saved (PrintCount n c # tr) = saved tr"
  "saved (TempFile p # tr) = saved tr"
  "saved (ToFile p rows d # tr) = (p, rows) # saved tr"
  "saved (Mkdir p # tr) = saved tr"
  "saved (Call args # tr) = saved tr"
  by (simp_all add: saved_def)

lemma calls_simps [simp]:
  "calls [] = []"
  "calls (tr @ tr') = calls tr @ calls tr'"
  "calls (Unlink p # tr) = calls tr"
  "calls (PrintCount n c # tr) = calls tr"
  "calls (TempFile p # tr) = calls tr"
  "calls (ToFile p rows d # tr) = calls tr"
  "calls (Mkdir p # tr) = calls tr"
  "calls (Call args # tr) = args # calls tr"
  by (simp_all add: calls_def)

lemma is_print_simps [simp]:
  "is_print (PrintCount n c)" "\<not> is_print (Unlink p)" "\<not> is_print (TempFile p)"
  "\<not> is_print (ToFile p rows d)" "\<not> is_print (Mkdir p)" "\<not> is_print (Call args)"
  by (simp_all add: is_print_def)

lemma external_ok:
  "fst (eff (files w)) = None \<Longrightarrow>
     external a eff w = (Inr (), w\<lparr>trace := trace w @ [a], files := snd (eff (files w))\<rparr>)"
  by (cases "eff (files w)") (simp add: external_def log_def)

lemma external_raises:
  "fst (eff (files w)) = Some x \<Longrightarrow>
     external a eff w = (Inl x, w\<lparr>trace := trace w @ [a], files := snd (eff (files w))\<rparr>)"
  by (cases "eff (files w)") (simp add: external_def log_def)

lemma then_stmt_ok: "s w = (Inr (), w') \<Longrightarrow> then_stmt s t w = t w'"
  by (simp add: then_stmt_def)

lemma then_stmt_raises: "s w = (Inl x, w') \<Longrightarrow> then_stmt s t w = (Inl x, w')"
  by (simp add: then_stmt_def)

text \<open>The shape of every run of the body of the \<open>try\<close>.\<close>

lemma try_body_shape:
  "\<exists>r fs acts.
     (\<forall>tr. try_body e ann \<lparr>files = fs0, trace = tr\<rparr> =
        (r, \<lparr>files = fs, trace = tr @ ToFile (temp_name e) ann ''GeoJSON'' # acts\<rparr>))
     \<and> saved acts = [] \<and> unlinked acts = [] \<and> filter is_print acts = []
     \<and> (\<forall>a\<in>set acts. \<not> is_print a)
     \<and> calls acts =
         (if fst (to_file_effect e fs0) = None
            \<and> fst (mkdir_effect e (snd (to_file_effect e fs0))) = None
          then [inference_args (temp_name e)] else [])"
proof (cases "fst (to_file_effect e fs0)")
  case (Some x)
  then have "\<forall>tr. try_body e ann \<lparr>files = fs0, trace = tr\<rparr> =
      (Inl x, \<lparr>files = snd (to_file_effect e fs0),
               trace = tr @ ToFile (temp_name e) ann ''GeoJSON'' # []\<rparr>)"
    by (simp add: try_body_def then_stmt_raises external_raises)
  with Some show ?thesis by (intro exI [of _ "Inl x"] exI [of _ "[]"] exI) simp
next
  case None
  let ?fs1 = "snd (to_file_effect e fs0)"
  show ?thesis
  proof (cases "fst (mkdir_effect e ?fs1)")
    case (Some x)
    with None have "\<forall>tr. try_body e ann \<lparr>files = fs0, trace = tr\<rparr> =
        (Inl x, \<lparr>files = snd (mkdir_effect e ?fs1),
                 trace = tr @ ToFile (temp_name e) ann ''GeoJSON'' # [Mkdir (path_parent out_f)]\<rparr>)"
      by (simp add: try_body_def then_stmt_ok then_stmt_raises external_ok external_raises)
    with None Some show ?thesis
      by (intro exI [of _ "Inl x"] exI [of _ "[Mkdir (path_parent out_f)]"] exI) simp
  next
    case mk: None
    let ?fs2 = "snd (mkdir_effect e ?fs1)"
    let ?acts = "[Mkdir (path_parent out_f), Call (inference_args (temp_name e))]"
    show ?thesis
    proof (cases "fst (inference_effect e ?fs2)")
      case (Some x)
      with None mk have "\<forall>tr. try_body e ann \<lparr>files = fs0, trace = tr\<rparr> =
          (Inl x, \<lparr>files = snd (inference_effect e ?fs2),
                   trace = tr @ ToFile (temp_name e) ann ''GeoJSON'' # ?acts\<rparr>)"
        by (simp add: try_body_def then_stmt_ok external_ok external_raises)
      with None mk show ?thesis
        by (intro exI [of _ "Inl x"] exI [of _ ?acts] exI) simp
    next
      case inf: None
      with None mk have "\<forall>tr. try_body e ann \<lparr>files = fs0, trace = tr\<rparr> =
          (Inr (), \<lparr>files = snd (inference_effect e ?fs2),
                    trace = tr @ ToFile (temp_name e) ann ''GeoJSON'' # ?acts\<rparr>)"
        by (simp add: try_body_def then_stmt_ok external_ok)
      with None mk show ?thesis
        by (intro exI [of _ "Inr ()"] exI [of _ ?acts] exI) simp
    qed
  qed
qed


text \<open>The shape of every run of the cell; only the printed count depends on the filter.\<close>

lemma inference_cell_shape:
  "\<exists>r fs acts.
     (\<forall>flt. inference_cell flt e w =
        (r, \<lparr>files = fs,
             trace = trace w @
               PrintCount (path_name imagery_f) (length (flt (selected_annotations e) (src e)))
               # TempFile (temp_name e)
               # ToFile (temp_name e) (selected_annotations e) ''GeoJSON''
               # acts @ [Unlink (temp_name e)]\<rparr>))
     \<and> temp_name e \<notin> fs
     \<and> saved acts = [] \<and> unlinked acts = [] \<and> filter is_print acts = []
     \<and> (\<forall>a\<in>set acts. \<not> is_print a)
     \<and> calls acts =
         (if fst (to_file_effect e (insert (temp_name e) (files w))) = None
            \<and> fst (mkdir_effect e (snd (to_file_effect e (insert (temp_name e) (files w))))) = None
          then [inference_args (temp_name e)] else [])"
proof -
  let ?tmp = "temp_name e" and ?ann = "selected_annotations e"
  from try_body_shape [of e ?ann "insert ?tmp (files w)"] obtain rb fsb acts where
    body: "\<And>tr. try_body e ?ann \<lparr>files = insert ?tmp (files w), trace = tr\<rparr> =
        (rb, \<lparr>files = fsb, trace = tr @ ToFile ?tmp ?ann ''GeoJSON'' # acts\<rparr>)"
    and acts: "saved acts = []" "unlinked acts = []" "filter is_print acts = []"
      "\<forall>a\<in>set acts. \<not> is_print a"
      "calls acts =
         (if fst (to_file_effect e (insert ?tmp (files w))) = None
            \<and> fst (mkdir_effect e (snd (to_file_effect e (insert ?tmp (files w))))) = None
          then [inference_args ?tmp] else [])"
    by blast
  let ?r = "if ?tmp \<in> fsb then rb else Inl (OSError ''FileNotFoundError'')"
  have "inference_cell flt e w =
      (?r, \<lparr>files = fsb - {?tmp},
            trace = trace w @
              PrintCount (path_name imagery_f) (length (flt ?ann (src e)))
              # TempFile ?tmp # ToFile ?tmp ?ann ''GeoJSON'' # acts @ [Unlink ?tmp]\<rparr>)" for flt
  proof -
    have w2: "named_temporary_file ?tmp
          (log (PrintCount (path_name imagery_f) (length (flt ?ann (src e)))) w) =
        \<lparr>files = insert ?tmp (files w),
         trace = trace w @ [PrintCount (path_name imagery_f) (length (flt ?ann (src e))),
                            TempFile ?tmp]\<rparr>"
      by (simp add: named_temporary_file_def log_def)
    show ?thesis
      unfolding inference_cell_def Let_def w2 try_finally_def body
      by (simp add: unlink_def log_def)
  qed
  with acts show ?thesis
    by (intro exI [of _ ?r] exI [of _ "fsb - {?tmp}"] exI [of _ acts]) simp
qed

text \<open>
  C7: the file handed to the inference function holds the full selection of
  annotations, not the raster-filtered subset.  After the print and the creation of the
  temporary file the cell saves the selected annotations to \<open>temp.name\<close>; no other
  frame is saved; the inference function, when it is called, is called after the save
  with \<open>temp.name\<close> as its building-polygons argument, between \<open>imagery_f\<close> and
  \<open>out_f\<close>.  The result of the point filter appears in the printed count and nowhere
  else: with another filter the other actions (the saved frame and the arguments of the
  call among them), the files and the outcome of the cell are the same.
\<close>

theorem inference_input_is_unfiltered:
  "(\<exists>acts.
      trace (snd (inference_cell flt e w)) =
        trace w @
          PrintCount (path_name imagery_f) (length (flt (selected_annotations e) (src e)))
          # TempFile (temp_name e)
          # ToFile (temp_name e) (selected_annotations e) ''GeoJSON''
          # acts @ [Unlink (temp_name e)]
      \<and> saved acts = [] \<and> filter is_print acts = []
      \<and> calls acts =
          (if fst (to_file_effect e (insert (temp_name e) (files w))) = None
             \<and> fst (mkdir_effect e (snd (to_file_effect e (insert (temp_name e) (files w))))) = None
           then [[Str checkpoint_f, Str imagery_f, Str (temp_name e), Str out_f,
                  Namespace [(''batch_size'', IntV 64), (''num_workers'', IntV 12),
                             (''device'', Device ''cuda:0'')]]]
           else []))
   \<and> saved (trace (snd (inference_cell flt e w)))
     = saved (trace w) @ [(temp_name e, selected_annotations e)]
   \<and> filter is_print (trace (snd (inference_cell flt e w)))
     = filter is_print (trace w)
       @ [PrintCount (path_name imagery_f) (length (flt (selected_annotations e) (src e)))]
   \<and> filter (\<lambda>a. \<not> is_print a) (trace (snd (inference_cell flt e w)))
     = filter (\<lambda>a. \<not> is_print a) (trace (snd (inference_cell flt' e w)))
   \<and> files (snd (inference_cell flt e w)) = files (snd (inference_cell flt' e w))
   \<and> fst (inference_cell flt e w) = fst (inference_cell flt' e w)"
proof -
  from inference_cell_shape [of e w] obtain r fs acts where
    cell: "\<And>flt. inference_cell flt e w =
        (r, \<lparr>files = fs,
             trace = trace w @
               PrintCount (path_name imagery_f) (length (flt (selected_annotations e) (src e)))
               # TempFile (temp_name e)
               # ToFile (temp_name e) (selected_annotations e) ''GeoJSON''
               # acts @ [Unlink (temp_name e)]\<rparr>)"
    and acts: "saved acts = []" "filter is_print acts = []" "\<forall>a\<in>set acts. \<not> is_print a"
    and call: "calls acts =
         (if fst (to_file_effect e (insert (temp_name e) (files w))) = None
            \<and> fst (mkdir_effect e (snd (to_file_effect e (insert (temp_name e) (files w))))) = None
          then [inference_args (temp_name e)] else [])"
    by blast
  from acts(3) have keep: "filter (\<lambda>a. \<not> is_print a) acts = acts"
    by (simp add: filter_id_conv)
  have order: "\<exists>acts.
      trace (snd (inference_cell flt e w)) =
        trace w @
          PrintCount (path_name imagery_f) (length (flt (selected_annotations e) (src e)))
          # TempFile (temp_name e)
          # ToFile (temp_name e) (selected_annotations e) ''GeoJSON''
          # acts @ [Unlink (temp_name e)]
      \<and> saved acts = [] \<and> filter is_print acts = []
      \<and> calls acts =
          (if fst (to_file_effect e (insert (temp_name e) (files w))) = None
             \<and> fst (mkdir_effect e (snd (to_file_effect e (insert (temp_name e) (files w))))) = None
           then [[Str checkpoint_f, Str imagery_f, Str (temp_name e), Str out_f,
                  Namespace [(''batch_size'', IntV 64), (''num_workers'', IntV 12),
                             (''device'', Device ''cuda:0'')]]]
           else [])"
    using acts(1) acts(2) call
    by (intro exI [of _ acts]) (simp add: cell [of flt] inference_args_def)
  have rest: "saved (trace (snd (inference_cell flt e w)))
       = saved (trace w) @ [(temp_name e, selected_annotations e)]
     \<and> filter is_print (trace (snd (inference_cell flt e w)))
       = filter is_print (trace w)
         @ [PrintCount (path_name imagery_f) (length (flt (selected_annotations e) (src e)))]
     \<and> filter (\<lambda>a. \<not> is_print a) (trace (snd (inference_cell flt e w)))
       = filter (\<lambda>a. \<not> is_print a) (trace (snd (inference_cell flt' e w)))
     \<and> files (snd (inference_cell flt e w)) = files (snd (inference_cell flt' e w))
     \<and> fst (inference_cell flt e w) = fst (inference_cell flt' e w)"
    by (simp add: cell [of flt] cell [of flt'] acts keep)
  from order rest show ?thesis by (rule conjI)
qed

lemma cell_calls:
  "calls (trace (snd (inference_cell flt e w))) =
     calls (trace w) @
     (if fst (to_file_effect e (insert (temp_name e) (files w))) = None
        \<and> fst (mkdir_effect e (snd (to_file_effect e (insert (temp_name e) (files w))))) = None
      then [inference_args (temp_name e)] else [])"
proof -
  from inference_cell_shape [of e w] obtain r fs acts where
    cell: "\<And>flt. inference_cell flt e w =
        (r, \<lparr>files = fs,
             trace = trace w @
               PrintCount (path_name imagery_f) (length (flt (selected_annotations e) (src e)))
               # TempFile (temp_name e)
               # ToFile (temp_name e) (selected_annotations e) ''GeoJSON''
               # acts @ [Unlink (temp_name e)]\<rparr>)"
    and acts: "calls acts =
         (if fst (to_file_effect e (insert (temp_name e) (files w))) = None
            \<and> fst (mkdir_effect e (snd (to_file_effect e (insert (temp_name e) (files w))))) = None
          then [inference_args (temp_name e)] else [])"
    by blast
  show ?thesis
    by (simp add: cell [of flt] acts)
qed

text \<open>
  C1 (amended): when the save and the creation of the output directory succeed, the
  cell calls the inference function once, with five arguments: the checkpoint path, the
  path of the image file, the path of the temporary file with the building polygons,
  the path of the output file, and a namespace holding batch size 64, worker count 12
  and the device \<open>cuda:0\<close>.  Otherwise it does not call it.
\<close>

theorem inference_call_arguments:
  "calls (trace (snd (inference_cell flt e w))) =
     calls (trace w) @
     (if fst (to_file_effect e (insert (temp_name e) (files w))) = None
        \<and> fst (mkdir_effect e (snd (to_file_effect e (insert (temp_name e) (files w))))) = None
      then [[Str checkpoint_f, Str imagery_f, Str (temp_name e), Str out_f,
             Namespace [(''batch_size'', IntV 64), (''num_workers'', IntV 12),
                        (''device'', Device ''cuda:0'')]]]
      else [])"
proof -
  from inference_cell_shape [of e w] obtain r fs acts where
    cell: "\<And>flt. inference_cell flt e w =
        (r, \<lparr>files = fs,
             trace = trace w @
               PrintCount (path_name imagery_f) (length (flt (selected_annotations e) (src e)))
               # TempFile (temp_name e)
               # ToFile (temp_name e) (selected_annotations e) ''GeoJSON''
               # acts @ [Unlink (temp_name e)]\<rparr>)"
    and acts: "calls acts =
         (if fst (to_file_effect e (insert (temp_name e) (files w))) = None
            \<and> fst (mkdir_effect e (snd (to_file_effect e (insert (temp_name e) (files w))))) = None
          then [inference_args (temp_name e)] else [])"
    by blast
  have "calls (trace (snd (inference_cell flt e w))) = calls (trace w) @ calls acts"
    by (simp add: cell [of flt])
  then show ?thesis
    by (simp add: acts inference_args_def)
qed

text \<open>
  The claim as first worded fails: in the sample run the single call has the output path
  as its fourth argument, which is none of the listed parameters.
\<close>

theorem inference_call_counterexample:
  "calls (trace (snd (notebook_cell example_env \<lparr>files = {}, trace = []\<rparr>)))
     = [[Str checkpoint_f, Str imagery_f, Str ''/tmp/tmpk3v9.gpkg'', Str out_f,
         Namespace [(''batch_size'', IntV 64), (''num_workers'', IntV 12),
                    (''device'', Device ''cuda:0'')]]]
   \<and> calls (trace (snd (notebook_cell example_env \<lparr>files = {}, trace = []\<rparr>)))
     \<noteq> [spec_listed_call (temp_name example_env)]"
  by (simp add: notebook_cell_def cell_calls inference_args_def spec_listed_call_def
      example_env_def)

end
